theory Spec2Isabelle
  imports Complex_Main "HOL-Library.Monad_Syntax" "HOL-Library.Sublist"
begin

section \<open>The Schwarzian pipeline of \<open>JT_Gravity/Schwarzian_action.py\<close>\<close>

text \<open>
  The program works on IEEE doubles and numpy arrays. The embedding uses exact reals for
  the numbers and lists for the arrays; rounding is modelled only where a property
  depends on it, for lines 143 to 151, in a second definition in doubles. A float
  operation whose result is not a finite number (numpy returns \<open>inf\<close> or \<open>nan\<close>
  for a division by zero, it does not raise) is modelled by \<open>None\<close>; a Python exception
  is a value of the type \<open>error\<close>. The module-level \<open>config\<close> object is passed
  explicitly.
\<close>

subsection \<open>Configuration and errors\<close>

record Config =
  C :: real
  delta :: real
  t_start :: real
  t_end :: real
  N :: int
  epsilon :: real
  delta_T :: real
  omega_T :: real

text \<open>The defaults of the dataclass; \<open>np.finfo(np.float64).eps\<close> is \<open>2\<^sup>-\<^sup>5\<^sup>2\<close>.\<close>

definition config :: Config where
  "config = \<lparr>C = 1, delta = 1 / 100, t_start = 0, t_end = 3, N = 1000000,
              epsilon = 1 / 2 ^ 52, delta_T = 1 / 100, omega_T = 1 / 2\<rparr>"

text \<open>
  The exceptions that can leave the program. \<open>IndexError\<close> comes from indexing an
  empty array, \<open>ValueError\<close> from numpy and scipy, \<open>KeyError\<close> from
  \<open>sp.lambdify\<close>, \<open>TypeError\<close> from indexing a Python number and
  \<open>RuntimeError\<close> from \<open>solve_equations_of_motion\<close>. The program has no
  \<open>try\<close>: whatever a call raises leaves the function that made the call.
\<close>

datatype error = IndexError | ValueError | KeyError string | TypeError | RuntimeError string

subsection \<open>numpy primitives on exact reals\<close>

text \<open>Float division: a zero divisor gives \<open>inf\<close> or \<open>nan\<close>, never an exception.\<close>

definition np_div :: "real \<Rightarrow> real \<Rightarrow> real option" where
  "np_div a b = (if b = 0 then None else Some (a / b))"

text \<open>
  \<open>np.linspace(start, stop, num)\<close>: \<open>num\<close> evenly spaced samples with both ends
  included; a negative \<open>num\<close> raises \<open>ValueError\<close>, \<open>num = 0\<close> gives the empty
  array and \<open>num = 1\<close> the array \<open>[start]\<close>.
\<close>

definition np_linspace :: "real \<Rightarrow> real \<Rightarrow> int \<Rightarrow> error + real list" where
  "np_linspace start stop num =
     (if num < 0 then Inl ValueError
      else if num = 1 then Inr [start]
      else Inr (map (\<lambda>i. start + real i * ((stop - start) / real_of_int (num - 1)))
                  [0 ..< nat num]))"

subsection \<open>\<open>temperature_perturbation\<close> (line 46)\<close>

definition temperature_perturbation :: "real \<Rightarrow> real \<Rightarrow> real \<Rightarrow> real" where
  "temperature_perturbation t dT wT = 1 + dT * sin (wT * t)"

text \<open>
  Lines 114 to 118 and 146 to 148 compute the effective source the same way:
  the spline value times the temperature.
\<close>

definition S_time_dependent :: "Config \<Rightarrow> (real \<Rightarrow> real) \<Rightarrow> real \<Rightarrow> real" where
  "S_time_dependent cfg S0_spline t =
     (let temperature = temperature_perturbation t (delta_T cfg) (omega_T cfg);
          S0_t = S0_spline t
      in S0_t * temperature)"

subsection \<open>The two safe divisors\<close>

text \<open>Lines 104 and 120: \<open>np.clip(f_prime, config.epsilon, None)\<close>, a lower bound only.\<close>

definition f_prime_safe :: "real \<Rightarrow> real \<Rightarrow> real" where
  "f_prime_safe eps f_prime = max f_prime eps"

text \<open>
  Line 143: \<open>np.where(np.abs(f') > eps, f', np.sign(f') * eps)\<close>; \<open>np.sign\<close> is
  \<open>-1\<close>, \<open>0\<close> or \<open>1\<close>.
\<close>

definition f_prime_evolved_safe :: "real \<Rightarrow> real \<Rightarrow> real" where
  "f_prime_evolved_safe eps f_prime =
     (if \<bar>f_prime\<bar> > eps then f_prime else sgn f_prime * eps)"

subsection \<open>\<open>compute_initial_perturbations\<close> (line 50)\<close>

text \<open>
  The perturbation \<open>\<delta> sin (\<omega> t)\<close>, the dilaton \<open>\<delta> cos (\<omega> t)\<close> and the
  derivatives that \<open>sp.diff\<close> returns for them, evaluated on the grid. The function
  has three more outcomes:
  \<^item> \<open>t_np[-1]\<close> raises \<open>IndexError\<close> on an empty grid (line 54);
  \<^item> with \<open>\<delta> = 0\<close> all six symbolic expressions are the constant \<open>0\<close>, and the
    lambdified functions return six Python numbers \<open>0\<close>, not arrays;
  \<^item> with \<open>\<delta> \<noteq> 0\<close> on a grid of zero span the frequency is the symbolic
    \<open>2\<pi>/0\<close>, and \<open>sp.lambdify\<close> raises \<open>KeyError('ComplexInfinity')\<close>.
\<close>

datatype perturbations =
    Scalars
  | Arrays "real list" "real list" "real list" "real list" "real list" "real list"

definition compute_initial_perturbations :: "real list \<Rightarrow> real \<Rightarrow> error + perturbations" where
  "compute_initial_perturbations t_np dl =
     (if t_np = [] then Inl IndexError
      else if dl = 0 then Inr Scalars
      else case np_div (2 * pi) (last t_np - hd t_np) of
        None \<Rightarrow> Inl (KeyError ''ComplexInfinity'')
      | Some omega \<Rightarrow>
          Inr (Arrays
                 (map (\<lambda>t. dl * sin (omega * t)) t_np)
                 (map (\<lambda>t. dl * omega * cos (omega * t)) t_np)
                 (map (\<lambda>t. - dl * omega\<^sup>2 * sin (omega * t)) t_np)
                 (map (\<lambda>t. - dl * omega ^ 3 * cos (omega * t)) t_np)
                 (map (\<lambda>t. dl * cos (omega * t)) t_np)
                 (map (\<lambda>t. - dl * omega * sin (omega * t)) t_np)))"

subsection \<open>\<open>compute_initial_schwarzian\<close> (line 84)\<close>

text \<open>
  Lines 104 to 106 at one sample: the clipped divisor, the ratio and the Schwarzian
  \<open>f'''/f'_safe - 1.5 (f''/f'_safe)\<^sup>2\<close>.
\<close>

definition S_initial_at :: "real \<Rightarrow> real \<Rightarrow> real \<Rightarrow> real \<Rightarrow> real option" where
  "S_initial_at eps f_prime f_double_prime f_triple_prime =
     (let fs = f_prime_safe eps f_prime
      in do {
        ratio \<leftarrow> np_div f_double_prime fs;
        q \<leftarrow> np_div f_triple_prime fs;
        Some (q - 1.5 * ratio\<^sup>2)
      })"

text \<open>
  The whole function on arrays. Array arithmetic is elementwise; operands of different
  lengths make numpy raise \<open>ValueError\<close> (the broadcasting of a one-element array is
  not modelled: \<open>main\<close> builds all five arrays from the same grid).
\<close>

definition compute_initial_schwarzian ::
  "Config \<Rightarrow> real list \<Rightarrow> real list \<Rightarrow> real list \<Rightarrow> real list \<Rightarrow> real list \<Rightarrow>
     error + (real list \<times> real list \<times> real list \<times> real option list)" where
  "compute_initial_schwarzian cfg t_np phi_initial phi_prime phi_double_prime phi_triple_prime =
     (if length phi_initial = length t_np \<and> length phi_double_prime = length phi_prime
         \<and> length phi_triple_prime = length phi_prime
      then
        let f_initial = map (\<lambda>i. t_np ! i + phi_initial ! i) [0 ..< length t_np];
            f_prime_initial = map (\<lambda>x. 1 + x) phi_prime;
            f_double_prime_initial = phi_double_prime;
            f_triple_prime_initial = phi_triple_prime;
            S_initial = map (\<lambda>i. S_initial_at (epsilon cfg) (f_prime_initial ! i)
                                  (f_double_prime_initial ! i) (f_triple_prime_initial ! i))
                          [0 ..< length phi_prime]
        in Inr (f_initial, f_prime_initial, f_double_prime_initial, S_initial)
      else Inl ValueError)"

subsection \<open>\<open>solve_equations_of_motion\<close> (line 110)\<close>

text \<open>
  The right-hand side, lines 112 to 125. The state is the vector
  \<open>(f, f', f'', \<phi>, \<phi>')\<close>; the third component of the result is \<open>None\<close> when the
  ratio is no finite number.
\<close>

type_synonym ode_state = "real \<times> real \<times> real \<times> real \<times> real"

type_synonym ode_deriv = "real \<times> real \<times> real option \<times> real \<times> real"

definition equations_of_motion ::
  "Config \<Rightarrow> (real \<Rightarrow> real) \<Rightarrow> real \<Rightarrow> ode_state \<Rightarrow> ode_deriv" where
  "equations_of_motion cfg S0_spline t st =
     (case st of (f, f_prime, f_double_prime, phi, phi_prime) \<Rightarrow>
        let Std = S_time_dependent cfg S0_spline t;
            fs = f_prime_safe (epsilon cfg) f_prime;
            ratio = np_div f_double_prime fs;
            f_triple_prime =
              map_option (\<lambda>r. fs * (Std + 1.5 * r\<^sup>2) + C cfg * phi_prime) ratio;
            phi_double_prime = - C cfg * f_prime
        in (f_prime, f_double_prime, f_triple_prime, phi_prime, phi_double_prime))"

text \<open>
  The result object of \<open>scipy.integrate.solve_ivp\<close>: the fields the program reads.
\<close>

record OdeResult =
  success :: bool
  message :: string
  y :: "real list list"

text \<open>
  \<open>solve_ivp\<close> is a library routine and a parameter here: it gets the right-hand side,
  the time span, the initial state and the evaluation grid (method and tolerances are
  constants of the call) and either raises or returns a result object.
\<close>

type_synonym ivp_solver =
  "(real \<Rightarrow> ode_state \<Rightarrow> ode_deriv) \<Rightarrow> real \<times> real \<Rightarrow> ode_state \<Rightarrow> real list
     \<Rightarrow> error + OdeResult"

definition solver_failed_message :: "string \<Rightarrow> string" where
  "solver_failed_message msg =
     ''Solver failed: '' @ msg @
     ''. Consider adjusting solver parameters or reviewing initial conditions.''"

definition solve_equations_of_motion ::
  "Config \<Rightarrow> ivp_solver \<Rightarrow> real list \<Rightarrow> ode_state \<Rightarrow> (real \<Rightarrow> real) \<Rightarrow> error + OdeResult" where
  "solve_equations_of_motion cfg solve_ivp t_np initial_conditions S0_spline =
     (if t_np = [] then Inl IndexError
      else case solve_ivp (equations_of_motion cfg S0_spline) (hd t_np, last t_np)
                  initial_conditions t_np of
        Inl e \<Rightarrow> Inl e
      | Inr sol \<Rightarrow>
          if \<not> success sol then Inl (RuntimeError (solver_failed_message (message sol)))
          else Inr sol)"

subsection \<open>\<open>process_and_plot_solution\<close> (line 134)\<close>

text \<open>Lines 143, 144 and 151 at one sample, for a given third derivative.\<close>

definition S_evolved_at :: "real \<Rightarrow> real \<Rightarrow> real \<Rightarrow> real \<Rightarrow> real option" where
  "S_evolved_at eps f_prime f_double_prime f_triple_prime =
     (let fs = f_prime_evolved_safe eps f_prime
      in do {
        ratio \<leftarrow> np_div f_double_prime fs;
        q \<leftarrow> np_div f_triple_prime fs;
        Some (q - 1.5 * ratio\<^sup>2)
      })"

text \<open>Line 150 at one sample: the third derivative rebuilt from the equation of motion.\<close>

definition f_triple_prime_evolved_at ::
  "Config \<Rightarrow> (real \<Rightarrow> real) \<Rightarrow> real \<Rightarrow> real \<Rightarrow> real \<Rightarrow> real \<Rightarrow> real option" where
  "f_triple_prime_evolved_at cfg S0_spline t f_prime f_double_prime phi_prime =
     (let fs = f_prime_evolved_safe (epsilon cfg) f_prime
      in do {
        ratio \<leftarrow> np_div f_double_prime fs;
        Some (fs * (S_time_dependent cfg S0_spline t + 1.5 * ratio\<^sup>2) + C cfg * phi_prime)
      })"

text \<open>Lines 143 to 151 at one sample: the evolved Schwarzian that is plotted.\<close>

definition S_evolved_sample ::
  "Config \<Rightarrow> (real \<Rightarrow> real) \<Rightarrow> real \<Rightarrow> real \<Rightarrow> real \<Rightarrow> real \<Rightarrow> real option" where
  "S_evolved_sample cfg S0_spline t f_prime f_double_prime phi_prime =
     do {
       f3 \<leftarrow> f_triple_prime_evolved_at cfg S0_spline t f_prime f_double_prime phi_prime;
       S_evolved_at (epsilon cfg) f_prime f_double_prime f3
     }"

text \<open>
  The function on arrays, up to the call of \<open>plot_solutions\<close>: it returns the series
  it computes, \<open>phi_evolved_from_f\<close>, \<open>S_evolved\<close> and \<open>temperature\<close>. Reading a
  row that \<open>sol.y\<close> does not have raises \<open>IndexError\<close>; rows that are not aligned
  with the grid make the array arithmetic raise \<open>ValueError\<close>.
\<close>

definition process_and_plot_solution ::
  "Config \<Rightarrow> real list \<Rightarrow> OdeResult \<Rightarrow> (real \<Rightarrow> real) \<Rightarrow>
     error + (real list \<times> real option list \<times> real list)" where
  "process_and_plot_solution cfg t_np sol S0_spline =
     (if length (y sol) < 5 then Inl IndexError
      else
        let f_evolved = y sol ! 0;
            f_prime_evolved = y sol ! 1;
            f_double_prime_evolved = y sol ! 2;
            phi_evolved = y sol ! 3;
            phi_prime_evolved = y sol ! 4
        in if length f_double_prime_evolved = length f_prime_evolved
              \<and> length f_prime_evolved = length t_np
              \<and> length phi_prime_evolved = length t_np
              \<and> length f_evolved = length t_np
           then
             let temperature =
                   map (\<lambda>t. temperature_perturbation t (delta_T cfg) (omega_T cfg)) t_np;
                 S_evolved =
                   map (\<lambda>i. S_evolved_sample cfg S0_spline (t_np ! i) (f_prime_evolved ! i)
                               (f_double_prime_evolved ! i) (phi_prime_evolved ! i))
                     [0 ..< length t_np];
                 phi_evolved_from_f = map (\<lambda>i. f_evolved ! i - t_np ! i) [0 ..< length t_np]
             in Inr (phi_evolved_from_f, S_evolved, temperature)
           else Inl ValueError)"

subsection \<open>\<open>main\<close> (line 22)\<close>

text \<open>
  The whole pipeline, lines 24 to 44. An exception is returned together with the call of
  \<open>main\<close> that raised it, which is what the traceback shows.
\<close>

datatype stage =
    Linspace | Perturbations | InitialSchwarzian | Spline | InitialConditions | Solve
  | Reconstruction

text \<open>
  What \<open>compute_initial_schwarzian\<close> hands to the spline: an array, or, when the
  perturbations are Python numbers, a single number.
\<close>

datatype ndarray = Scalar "real option" | Array "real option list"

text \<open>
  \<open>scipy.interpolate.CubicSpline\<close> is a library routine and a parameter here: it gets
  the grid and the samples and either raises or returns the interpolant.
\<close>

type_synonym spline_ctor = "real list \<Rightarrow> ndarray \<Rightarrow> error + (real \<Rightarrow> real)"

text \<open>
  With array perturbations the grid is not empty, so the reads \<open>f_initial[0]\<close> of line
  38 succeed. With number perturbations line 30 computes \<open>f' = 1 + 0\<close>,
  \<open>f'' = f''' = 0\<close> and a single number \<open>S_initial\<close>; if the spline accepts it,
  \<open>f_prime_initial[0]\<close> on line 38 indexes a Python number and raises
  \<open>TypeError\<close>.
\<close>

definition main ::
  "Config \<Rightarrow> spline_ctor \<Rightarrow> ivp_solver \<Rightarrow>
     (stage \<times> error) + (real list \<times> real option list \<times> real list)" where
  "main cfg CubicSpline solve_ivp =
     (case np_linspace (t_start cfg) (t_end cfg) (N cfg) of
        Inl e \<Rightarrow> Inl (Linspace, e)
      | Inr t_np \<Rightarrow>
          (case compute_initial_perturbations t_np (delta cfg) of
             Inl e \<Rightarrow> Inl (Perturbations, e)
           | Inr Scalars \<Rightarrow>
               (case CubicSpline t_np (Scalar (S_initial_at (epsilon cfg) (1 + 0) 0 0)) of
                  Inl e \<Rightarrow> Inl (Spline, e)
                | Inr S0_spline \<Rightarrow> Inl (InitialConditions, TypeError))
           | Inr (Arrays phi_initial phi_prime phi_double_prime phi_triple_prime
                    dilaton_initial dilaton_prime_initial) \<Rightarrow>
               (case compute_initial_schwarzian cfg t_np phi_initial phi_prime
                       phi_double_prime phi_triple_prime of
                  Inl e \<Rightarrow> Inl (InitialSchwarzian, e)
                | Inr (f_initial, f_prime_initial, f_double_prime_initial, S_initial) \<Rightarrow>
                    (case CubicSpline t_np (Array S_initial) of
                       Inl e \<Rightarrow> Inl (Spline, e)
                     | Inr S0_spline \<Rightarrow>
                         (case solve_equations_of_motion cfg solve_ivp t_np
                                 (hd f_initial, hd f_prime_initial, hd f_double_prime_initial,
                                  hd dilaton_initial, hd dilaton_prime_initial) S0_spline of
                            Inl e \<Rightarrow> Inl (Solve, e)
                          | Inr sol \<Rightarrow>
                              (case process_and_plot_solution cfg t_np sol S0_spline of
                                 Inl e \<Rightarrow> Inl (Reconstruction, e)
                               | Inr series \<Rightarrow> Inr series))))))"

text \<open>The calls of \<open>main\<close> that come before the solver is started on line 41.\<close>

definition before_solve :: "stage \<Rightarrow> bool" where
  "before_solve st =
     (st = Linspace \<or> st = Perturbations \<or> st = InitialSchwarzian \<or> st = Spline
      \<or> st = InitialConditions)"

subsection \<open>Exact trajectories of the equations of motion\<close>

text \<open>
  The five functions \<open>F, F1, F2, P, P1\<close> are an exact solution on \<open>[a, b]\<close> when the
  derivative of the state \<open>(F t, F1 t, F2 t, P t, P1 t)\<close> is what
  \<open>equations_of_motion\<close> returns for it at every time of the interval. This is the
  trajectory the solver approximates; the solver's own steps are not modelled.
\<close>

definition solves_eom ::
  "Config \<Rightarrow> (real \<Rightarrow> real) \<Rightarrow> real \<Rightarrow> real \<Rightarrow>
     (real \<Rightarrow> real) \<Rightarrow> (real \<Rightarrow> real) \<Rightarrow> (real \<Rightarrow> real) \<Rightarrow> (real \<Rightarrow> real) \<Rightarrow>
     (real \<Rightarrow> real) \<Rightarrow> bool" where
  "solves_eom cfg S0_spline a b F F1 F2 P P1 \<longleftrightarrow>
     (\<forall>t. a \<le> t \<and> t \<le> b \<longrightarrow>
        (case equations_of_motion cfg S0_spline t (F t, F1 t, F2 t, P t, P1 t) of
           (d0, d1, d2, d3, d4) \<Rightarrow>
             (F has_real_derivative d0) (at t within {a..b}) \<and>
             (F1 has_real_derivative d1) (at t within {a..b}) \<and>
             (case d2 of None \<Rightarrow> False
              | Some d \<Rightarrow> (F2 has_real_derivative d) (at t within {a..b})) \<and>
             (P has_real_derivative d3) (at t within {a..b}) \<and>
             (P1 has_real_derivative d4) (at t within {a..b})))"

subsection \<open>Lines 143 to 151 in double precision\<close>

text \<open>
  The exact-real definitions above do not see rounding. For the one place where the
  program adds a term and subtracts it again, the same lines are modelled in IEEE doubles:
  every \<open>+\<close>, \<open>-\<close>, \<open>*\<close>, \<open>/\<close> and the square \<open>ratio ** 2\<close> returns the
  double nearest to the exact result, ties to the even significand. \<open>to_double\<close> is that
  rounding for a 53-bit significand; overflow and subnormal numbers are not modelled (the
  exponent is unbounded).
\<close>

definition round_half_even :: "real \<Rightarrow> int" where
  "round_half_even r =
     (let n = \<lfloor>r\<rfloor>; d = r - of_int n
      in if d < 1 / 2 then n else if 1 / 2 < d then n + 1 else if even n then n else n + 1)"

definition to_double :: "real \<Rightarrow> real" where
  "to_double x =
     (if x = 0 then 0
      else let u = 2 powr of_int (\<lfloor>log 2 \<bar>x\<bar>\<rfloor> - 52)
           in of_int (round_half_even (x / u)) * u)"

text \<open>
  One sample of lines 143 to 151, for doubles \<open>eps\<close>, \<open>Cc\<close> (the coupling),
  \<open>S0_t\<close>, \<open>temperature\<close>, \<open>f'\<close>, \<open>f''\<close> and \<open>\<phi>'\<close>. The guard of line 143
  selects \<open>f'\<close> or \<open>\<plusminus>eps\<close> and rounds nothing; line 151 computes
  \<open>1.5 * ratio ** 2\<close> again and gets the value of line 150.
\<close>

definition S_evolved_double ::
  "real \<Rightarrow> real \<Rightarrow> real \<Rightarrow> real \<Rightarrow> real \<Rightarrow> real \<Rightarrow> real \<Rightarrow> real option" where
  "S_evolved_double eps Cc S0_t temperature f_prime f_double_prime phi_prime =
     (let fs = f_prime_evolved_safe eps f_prime
      in if fs = 0 then None
         else
           let ratio = to_double (f_double_prime / fs);
               Std = to_double (S0_t * temperature);
               term = to_double (1.5 * to_double (ratio * ratio));
               f_triple_prime_evolved =
                 to_double (to_double (fs * to_double (Std + term)) + to_double (Cc * phi_prime))
           in Some (to_double (to_double (f_triple_prime_evolved / fs) - term)))"

section \<open>Properties\<close>

subsection \<open>Helper facts\<close>

lemma np_div_simps:
  "b \<noteq> 0 \<Longrightarrow> np_div a b = Some (a / b)"
  "np_div a 0 = None"
  by (simp_all add: np_div_def)

lemma f_prime_safe_ge: "0 < eps \<Longrightarrow> eps \<le> f_prime_safe eps fp"
  by (simp add: f_prime_safe_def)

lemma S_evolved_sample_eq:
  "S_evolved_sample cfg S0_spline t fp fpp pp =
     (case np_div (C cfg * pp) (f_prime_evolved_safe (epsilon cfg) fp) of
        None \<Rightarrow> None
      | Some q \<Rightarrow> Some (S_time_dependent cfg S0_spline t + q))"
proof (cases "f_prime_evolved_safe (epsilon cfg) fp = 0")
  case True
  then show ?thesis
    by (simp add: S_evolved_sample_def f_triple_prime_evolved_at_def np_div_def Let_def)
next
  case False
  then show ?thesis
    by (simp add: S_evolved_sample_def f_triple_prime_evolved_at_def S_evolved_at_def
        np_div_def Let_def field_simps)
qed

lemma f_prime_evolved_safe_ge:
  "0 < eps \<Longrightarrow> fp \<noteq> 0 \<Longrightarrow> eps \<le> \<bar>f_prime_evolved_safe eps fp\<bar>"
  by (auto simp: f_prime_evolved_safe_def sgn_real_def)

lemma f_prime_evolved_safe_zero: "f_prime_evolved_safe eps 0 = 0"
  by (simp add: f_prime_evolved_safe_def)

text \<open>The closed forms of \<open>compute_initial_perturbations\<close> are the derivatives they stand for.\<close>

lemma perturbation_derivatives:
  "((\<lambda>t. dl * sin (w * t)) has_real_derivative dl * w * cos (w * t)) (at t)"
  "((\<lambda>t. dl * w * cos (w * t)) has_real_derivative - dl * w\<^sup>2 * sin (w * t)) (at t)"
  "((\<lambda>t. - dl * w\<^sup>2 * sin (w * t)) has_real_derivative - dl * w ^ 3 * cos (w * t)) (at t)"
  "((\<lambda>t. dl * cos (w * t)) has_real_derivative - dl * w * sin (w * t)) (at t)"
  by (auto intro!: derivative_eq_intros simp: power2_eq_square power3_eq_cube)

text \<open>The grid of \<open>np.linspace\<close> for at least two samples: its length and its ends.\<close>

lemma np_linspace_grid:
  assumes "2 \<le> num"
  shows "\<exists>t_np. np_linspace start stop num = Inr t_np \<and> length t_np = nat num
            \<and> hd t_np = start \<and> last t_np = stop"
proof -
  let ?g = "\<lambda>i. start + real i * ((stop - start) / real_of_int (num - 1))"
  let ?t = "map ?g [0 ..< nat num]"
  have n: "0 < nat num" "nat num - 1 < nat num" using assms by simp_all
  have ne: "[0 ..< nat num] \<noteq> []" using n by simp
  have e: "np_linspace start stop num = Inr ?t"
    using assms by (simp add: np_linspace_def)
  have h: "hd ?t = start"
    using ne by (simp add: hd_map n)
  have r: "real (nat num - 1) = real_of_int (num - 1)"
    using assms by simp
  have "last ?t = ?g (nat num - 1)"
    using ne by (simp add: last_map)
  also have "\<dots> = stop"
    using assms by (simp add: r)
  finally have l: "last ?t = stop" .
  show ?thesis using e h l by simp
qed

lemma np_linspace_nonempty:
  assumes "1 \<le> num"
  shows "\<exists>t_np. np_linspace start stop num = Inr t_np \<and> t_np \<noteq> []
            \<and> (num = 1 \<or> stop = start \<longrightarrow> last t_np = hd t_np)"
proof (cases "num = 1")
  case True
  then show ?thesis by (simp add: np_linspace_def)
next
  case False
  then have "2 \<le> num" using assms by simp
  then obtain t_np where t: "np_linspace start stop num = Inr t_np" "length t_np = nat num"
      "hd t_np = start" "last t_np = stop"
    using np_linspace_grid [of num start stop] by blast
  have "t_np \<noteq> []" using t(2) \<open>2 \<le> num\<close> by auto
  then show ?thesis using t False by simp
qed

text \<open>A list of two or more numbers whose last is not above its first does not increase.\<close>

lemma not_increasing:
  fixes xs :: "real list"
  assumes "2 \<le> length xs" "last xs \<le> hd xs"
  shows "\<not> sorted_wrt (<) xs"
proof
  assume "sorted_wrt (<) xs"
  then have "xs ! 0 < xs ! (length xs - 1)"
    using assms(1) by (simp add: sorted_wrt_iff_nth_less)
  moreover have "xs \<noteq> []" using assms(1) by auto
  ultimately have "hd xs < last xs"
    by (simp add: hd_conv_nth last_conv_nth)
  then show False using assms(2) by simp
qed

lemma compute_initial_perturbations_ok:
  assumes "t_np \<noteq> []" "last t_np \<noteq> hd t_np" "dl \<noteq> 0"
  shows "\<exists>a b c d e f. compute_initial_perturbations t_np dl = Inr (Arrays a b c d e f)
           \<and> length a = length t_np \<and> length b = length t_np \<and> length c = length t_np
           \<and> length d = length t_np"
  using assms by (simp add: compute_initial_perturbations_def np_div_def)

text \<open>A function whose derivative vanishes on an interval is constant there.\<close>

lemma zero_derivative_constant:
  fixes g :: "real \<Rightarrow> real"
  assumes d: "\<And>t. a \<le> t \<Longrightarrow> t \<le> b \<Longrightarrow> (g has_real_derivative 0) (at t within {a..b})"
    and s: "a \<le> s" "s \<le> b"
  shows "g s = g a"
proof (cases "a < b")
  case True
  have c: "continuous_on {a..b} g"
    by (rule DERIV_continuous_on [where D = "\<lambda>_. 0"]) (simp add: d)
  have i: "DERIV g x :> 0" if "a < x" "x < b" for x
    using d [of x] that by (simp add: at_within_Icc_at)
  show ?thesis
    by (rule DERIV_isconst2 [OF True c i s])
next
  case False
  then have "s = a" using s by linarith
  then show ?thesis by simp
qed

lemma solves_eom_phi:
  assumes "solves_eom cfg S0_spline a b F F1 F2 P P1" "a \<le> t" "t \<le> b"
  shows "(P has_real_derivative P1 t) (at t within {a..b})"
    and "(P1 has_real_derivative - C cfg * F1 t) (at t within {a..b})"
  using assms
  by (auto simp: solves_eom_def equations_of_motion_def Let_def split: prod.splits)

lemma free_dilaton_linear:
  assumes c: "C cfg = 0" and sol: "solves_eom cfg S0_spline a b F F1 F2 P P1"
    and s: "a \<le> s" "s \<le> b"
  shows "P s = P a + P1 a * (s - a)"
proof -
  have d1: "(P1 has_real_derivative 0) (at t within {a..b})" if "a \<le> t" "t \<le> b" for t
    using solves_eom_phi(2) [OF sol that] c by simp
  have k: "P1 t = P1 a" if "a \<le> t" "t \<le> b" for t
    using zero_derivative_constant [of a b P1 t] d1 that by blast
  let ?G = "\<lambda>t. P t - P1 a * (t - a)"
  have dG: "(?G has_real_derivative 0) (at t within {a..b})" if "a \<le> t" "t \<le> b" for t
  proof -
    have "(P has_real_derivative P1 a) (at t within {a..b})"
      using solves_eom_phi(1) [OF sol that] k [OF that] by simp
    then show ?thesis
      by (auto intro!: derivative_eq_intros)
  qed
  have "?G s = ?G a"
    using zero_derivative_constant [of a b ?G s] dG s by blast
  then show ?thesis by simp
qed

subsection \<open>The two safe divisors compared\<close>

text \<open>
  On \<open>f' > 0\<close>, where the default configuration starts, the two guards give the same
  divisor and the same Schwarzian.
\<close>

lemma safe_divisors_agree_on_positive:
  "0 < fp \<Longrightarrow>
     f_prime_safe eps fp = f_prime_evolved_safe eps fp \<and>
     S_initial_at eps fp fpp fppp = S_evolved_at eps fp fpp fppp"
  by (simp add: f_prime_safe_def f_prime_evolved_safe_def S_initial_at_def S_evolved_at_def
      max_def)

text \<open>The guard of line 143 keeps the sign of every \<open>f' \<noteq> 0\<close>.\<close>

lemma f_prime_evolved_safe_sgn:
  "0 < eps \<Longrightarrow> fp \<noteq> 0 \<Longrightarrow> sgn (f_prime_evolved_safe eps fp) = sgn fp"
  by (auto simp: f_prime_evolved_safe_def sgn_real_def)

text \<open>
  Claim C1 says that the initial-condition path and the reconstruction path compute the
  same \<open>f'_safe\<close>, and so the same Schwarzian, for every input triple
  \<open>(f', f'', f''')\<close>. The code does not do that: line 104 clips from below, line 143
  keeps the sign. At \<open>(f', f'', f''') = (-1, 0, 1)\<close> with the default \<open>\<epsilon>\<close> the initial
  path replaces the divisor \<open>-1\<close> by \<open>\<epsilon>\<close> and returns \<open>S = 2\<^sup>5\<^sup>2\<close>, the
  reconstruction path divides by \<open>-1\<close> and returns \<open>S = -1\<close>.
\<close>

theorem safe_divisor_paths_differ:
  "f_prime_safe (epsilon config) (- 1) \<noteq> f_prime_evolved_safe (epsilon config) (- 1) \<and>
   S_initial_at (epsilon config) (- 1) 0 1 \<noteq> S_evolved_at (epsilon config) (- 1) 0 1"
  by (simp add: f_prime_safe_def f_prime_evolved_safe_def S_initial_at_def S_evolved_at_def
      config_def np_div_def)

subsection \<open>Sign of the safe divisor\<close>

text \<open>
  Claim C2 says that the safe divisor keeps the sign of \<open>f'\<close> in all three places, and
  leaves \<open>f'\<close> alone when it is farther than \<open>\<epsilon>\<close> from zero. The clip of lines 104
  and 120 does neither for a negative \<open>f'\<close>: \<open>f' = -1\<close> is farther than \<open>\<epsilon>\<close> from
  zero, yet it is replaced, and by the positive \<open>\<epsilon>\<close>.
\<close>

theorem clip_replaces_negative_by_positive:
  "\<bar>- 1 :: real\<bar> > epsilon config \<and> f_prime_safe (epsilon config) (- 1) \<noteq> - 1 \<and>
   0 < f_prime_safe (epsilon config) (- 1)"
  by (simp add: f_prime_safe_def config_def)

subsection \<open>The divisor at \<open>f' = 0\<close>\<close>

text \<open>
  Claim C3 says that \<open>|f'_safe| \<ge> \<epsilon>\<close> in both evaluations, so that no division by zero
  reaches the output. The initial path satisfies it (\<open>f_prime_safe_ge\<close>), the
  reconstruction path for \<open>f' \<noteq> 0\<close> (\<open>f_prime_evolved_safe_ge\<close>). At \<open>f' = 0\<close>
  the reconstruction path computes \<open>sign 0 * \<epsilon> = 0\<close>: the divisor is zero, and the
  evolved Schwarzian of that sample is no finite number. The second part evaluates
  \<open>process_and_plot_solution\<close> on a trajectory whose first sample has \<open>f' = 0\<close>.
\<close>

theorem reconstruction_divides_by_zero:
  "f_prime_evolved_safe eps 0 = 0 \<and>
   S_evolved_sample cfg S0_spline t 0 fpp pp = None \<and>
   process_and_plot_solution config [0, 3]
      \<lparr>success = True, message = ''ok'', y = [[0, 4], [0, 2], [0, 1], [1, 0], [0, 3]]\<rparr>
      (\<lambda>t. 5)
     = Inr ([0, 1], [None, Some (5 * (1 + sin (3 / 2) / 100) + 3 / 2)],
            [1, 1 + sin (3 / 2) / 100])"
  by (simp add: process_and_plot_solution_def Let_def S_evolved_sample_eq S_time_dependent_def
      temperature_perturbation_def f_prime_evolved_safe_def np_div_def config_def numeral_2_eq_2
      split: option.splits)

subsection \<open>The integrator right-hand side\<close>

text \<open>
  Claim C5. For every state \<open>(f, f', f'', \<phi>, \<phi>')\<close> and time \<open>t\<close> the right-hand side
  returns \<open>(f', f'', f''', \<phi>', \<phi>'')\<close> with
  \<open>f''' = f'_safe (S_effective t + 1.5 (f''/f'_safe)\<^sup>2) + C \<phi>'\<close> and \<open>\<phi>'' = - C f'\<close>,
  where \<open>S_effective t\<close> is the spline value times \<open>1 + \<delta>_T sin (\<omega>_T t)\<close>. The divisor
  \<open>f'_safe\<close> is the clipped \<open>max f' \<epsilon>\<close> of line 120; it is zero only for a
  non-positive \<open>\<epsilon>\<close>, and then \<open>f'''\<close> is no finite number.
\<close>

theorem equations_of_motion_formula:
  "equations_of_motion cfg S0_spline t (f, fp, fpp, p, pp) =
     (fp, fpp,
      (if f_prime_safe (epsilon cfg) fp = 0 then None
       else Some (f_prime_safe (epsilon cfg) fp *
              (S0_spline t * (1 + delta_T cfg * sin (omega_T cfg * t))
                + 1.5 * (fpp / f_prime_safe (epsilon cfg) fp)\<^sup>2) + C cfg * pp)),
      pp, - C cfg * fp)"
  by (simp add: equations_of_motion_def S_time_dependent_def temperature_perturbation_def
      np_div_def Let_def)

subsection \<open>Solver failure\<close>

text \<open>
  Claim C6 says that a failing solver makes \<open>solve_equations_of_motion\<close> raise one
  error that carries the solver's diagnostic text, and that no other error type crosses
  the boundary. The last part does not hold: the function catches nothing. A
  \<open>ValueError\<close> raised inside \<open>solve_ivp\<close> leaves it unchanged, and so does the
  \<open>IndexError\<close> of \<open>t_np[0]\<close> on an empty grid.
\<close>

theorem other_errors_cross_the_boundary:
  "solve_equations_of_motion config (\<lambda>rhs span ic ts. Inl ValueError) [0, 3]
     (0, 1, 0, 1 / 100, 0) (\<lambda>t. 0) = Inl ValueError \<and>
   solve_equations_of_motion config (\<lambda>rhs span ic ts. Inl ValueError) []
     (0, 1, 0, 1 / 100, 0) (\<lambda>t. 0) = Inl IndexError"
  by (simp add: solve_equations_of_motion_def)

text \<open>
  Claim C6, amended. If \<open>solve_ivp\<close> returns a result object whose \<open>success\<close> flag is
  false, \<open>solve_equations_of_motion\<close> raises the one \<open>RuntimeError\<close>, its message
  contains the solver's own diagnostic text, and no trajectory is returned; a successful
  result is returned whole. Exceptions are not caught: one raised by \<open>solve_ivp\<close> itself
  leaves the function as it is, and an empty grid ends in the \<open>IndexError\<close> of
  \<open>t_np[0]\<close>.
\<close>

theorem solver_outcomes:
  "(t_np \<noteq> [] \<and>
    solve_ivp (equations_of_motion cfg S0_spline) (hd t_np, last t_np) ic t_np = Inr sol \<and>
    \<not> success sol \<longrightarrow>
      solve_equations_of_motion cfg solve_ivp t_np ic S0_spline
        = Inl (RuntimeError (solver_failed_message (message sol))) \<and>
      sublist (message sol) (solver_failed_message (message sol))) \<and>
   (t_np \<noteq> [] \<and>
    solve_ivp (equations_of_motion cfg S0_spline) (hd t_np, last t_np) ic t_np = Inr sol \<and>
    success sol \<longrightarrow>
      solve_equations_of_motion cfg solve_ivp t_np ic S0_spline = Inr sol) \<and>
   (t_np \<noteq> [] \<and>
    solve_ivp (equations_of_motion cfg S0_spline) (hd t_np, last t_np) ic t_np = Inl e \<longrightarrow>
      solve_equations_of_motion cfg solve_ivp t_np ic S0_spline = Inl e) \<and>
   (t_np = [] \<longrightarrow> solve_equations_of_motion cfg solve_ivp t_np ic S0_spline = Inl IndexError)"
proof -
  have "sublist (message sol) (solver_failed_message (message sol))"
    unfolding solver_failed_message_def by (rule sublist_appendI)
  then show ?thesis
    by (simp add: solve_equations_of_motion_def)
qed

theorem solver_outcomes_witness:
  "solve_equations_of_motion config
     (\<lambda>rhs span ic ts. Inr \<lparr>success = False,
        message = ''Required step size is less than spacing between numbers.'', y = []\<rparr>)
     [0, 3] (0, 1, 0, 1 / 100, 0) (\<lambda>t. 0)
   = Inl (RuntimeError ''Solver failed: Required step size is less than spacing between numbers.. Consider adjusting solver parameters or reviewing initial conditions.'') \<and>
   solve_equations_of_motion config
     (\<lambda>rhs span ic ts. Inr \<lparr>success = True, message = ''ok'', y = []\<rparr>)
     [0, 3] (0, 1, 0, 1 / 100, 0) (\<lambda>t. 0)
   = Inr \<lparr>success = True, message = ''ok'', y = []\<rparr> \<and>
   solve_equations_of_motion config (\<lambda>rhs span ic ts. Inl (KeyError ''k''))
     [0, 3] (0, 1, 0, 1 / 100, 0) (\<lambda>t. 0)
   = Inl (KeyError ''k'') \<and>
   solve_equations_of_motion config (\<lambda>rhs span ic ts. Inl (KeyError ''k''))
     [] (0, 1, 0, 1 / 100, 0) (\<lambda>t. 0)
   = Inl IndexError"
  using
    solver_outcomes [of "[0, 3]"
      "(\<lambda>rhs span ic ts. Inr \<lparr>success = False,
        message = ''Required step size is less than spacing between numbers.'', y = []\<rparr>)"
      config "\<lambda>t. 0" "(0, 1, 0, 1 / 100, 0)"
      "\<lparr>success = False,
        message = ''Required step size is less than spacing between numbers.'', y = []\<rparr>"]
    solver_outcomes [of "[0, 3]"
      "(\<lambda>rhs span ic ts. Inr \<lparr>success = True, message = ''ok'', y = []\<rparr>)"
      config "\<lambda>t. 0" "(0, 1, 0, 1 / 100, 0)" "\<lparr>success = True, message = ''ok'', y = []\<rparr>"]
    solver_outcomes [of "[0, 3]" "(\<lambda>rhs span ic ts. Inl (KeyError ''k''))"
      config "\<lambda>t. 0" "(0, 1, 0, 1 / 100, 0)" _ "KeyError ''k''"]
    solver_outcomes [of "[]" "(\<lambda>rhs span ic ts. Inl (KeyError ''k''))"
      config "\<lambda>t. 0" "(0, 1, 0, 1 / 100, 0)"]
  by (simp add: solver_failed_message_def)

subsection \<open>The identity map\<close>

text \<open>
  Claim C8. For zero perturbation, \<open>\<phi> = \<phi>' = \<phi>'' = \<phi>''' = 0\<close> on the whole grid (so
  \<open>f = t\<close>, \<open>f' = 1\<close>, \<open>f'' = f''' = 0\<close>), \<open>compute_initial_schwarzian\<close> returns
  \<open>S = 0\<close> at every sample, for every grid and every \<open>\<epsilon>\<close>.
\<close>

theorem schwarzian_of_identity_is_zero:
  "compute_initial_schwarzian cfg t_np (replicate (length t_np) 0) (replicate (length t_np) 0)
       (replicate (length t_np) 0) (replicate (length t_np) 0)
   = Inr (t_np, replicate (length t_np) 1, replicate (length t_np) 0,
          replicate (length t_np) (Some 0))"
proof -
  have nz: "f_prime_safe (epsilon cfg) 1 \<noteq> 0"
    by (simp add: f_prime_safe_def max_def)
  have s: "S_initial_at (epsilon cfg) 1 0 0 = Some 0"
    using nz by (simp add: S_initial_at_def np_div_def Let_def)
  have a: "map (\<lambda>i. t_np ! i + replicate (length t_np) 0 ! i) [0 ..< length t_np] = t_np"
    by (rule nth_equalityI) simp_all
  have b: "map (\<lambda>x. 1 + x) (replicate (length t_np) (0::real)) = replicate (length t_np) 1"
    by simp
  have c: "map (\<lambda>i. S_initial_at (epsilon cfg) (replicate (length t_np) 1 ! i)
              (replicate (length t_np) 0 ! i) (replicate (length t_np) 0 ! i))
            [0 ..< length t_np] = replicate (length t_np) (Some 0)"
    by (rule nth_equalityI) (simp_all add: s)
  show ?thesis
    unfolding compute_initial_schwarzian_def Let_def
    by (simp only: a b c length_replicate) simp
qed

subsection \<open>No thermal driving\<close>

text \<open>
  Claim C9. With \<open>\<delta>_T = 0\<close> the temperature is \<open>1\<close> at every time, and the effective
  source is the spline source unchanged.
\<close>

theorem no_thermal_driving_is_noop:
  "temperature_perturbation t 0 wT = 1 \<and>
   S_time_dependent (cfg\<lparr>delta_T := 0\<rparr>) S0_spline t = S0_spline t"
  by (simp add: temperature_perturbation_def S_time_dependent_def)

subsection \<open>Invalid configurations\<close>

text \<open>
  Claim C4 says that reversed time bounds or a non-positive grid size are detected before
  any computation and reported as a configuration error. No call checks the
  configuration. With \<open>t_start = 3\<close>, \<open>t_end = 0\<close>, \<open>N = 2\<close> the grid and the
  perturbation arrays are computed, and so is the initial Schwarzian; the run ends only
  on line 35, in the \<open>ValueError\<close> with which the spline constructor refuses a grid
  that does not increase.
\<close>

theorem reversed_bounds_fail_in_the_spline:
  "t_end (config\<lparr>t_start := 3, t_end := 0, N := 2\<rparr>)
     \<le> t_start (config\<lparr>t_start := 3, t_end := 0, N := 2\<rparr>) \<and>
   np_linspace 3 0 2 = Inr [3, 0] \<and>
   \<not> isl (compute_initial_perturbations [3, 0] (delta config)) \<and>
   main (config\<lparr>t_start := 3, t_end := 0, N := 2\<rparr>)
     (\<lambda>x ys. if sorted_wrt (<) x then Inr (\<lambda>t. 0) else Inl ValueError)
     (\<lambda>rhs span ic ts. Inl ValueError)
   = Inl (Spline, ValueError)"
  by (simp add: main_def np_linspace_def compute_initial_perturbations_def
      compute_initial_schwarzian_def np_div_def config_def Let_def numeral_2_eq_2)

text \<open>
  Claim C4, amended. The pipeline makes no configuration check of its own and has no
  configuration-error message. Every configuration with \<open>t_end \<le> t_start\<close> or
  \<open>N \<le> 0\<close> still fails before the solve begins, in the first call that cannot cope
  with it:
  \<^item> \<open>N < 0\<close>: the \<open>ValueError\<close> of \<open>np.linspace\<close>, line 24;
  \<^item> \<open>N = 0\<close>: the \<open>IndexError\<close> of \<open>t_np[-1]\<close>, line 54;
  \<^item> a grid of zero span (\<open>N = 1\<close>, or \<open>t_end = t_start\<close>) with \<open>\<delta> \<noteq> 0\<close>: the
    \<open>KeyError\<close> of \<open>sp.lambdify\<close>;
  \<^item> \<open>N \<ge> 2\<close>, \<open>t_end < t_start\<close> and \<open>\<delta> \<noteq> 0\<close>: the \<open>ValueError\<close> of the
    spline constructor on line 35, after the perturbations and the initial Schwarzian
    have been computed.
  The spline constructor is a parameter; what is assumed of it is that it raises
  \<open>ValueError\<close> for a grid that is not strictly increasing.
\<close>

theorem invalid_configuration_fails_before_solve:
  assumes "\<And>x ys. \<not> sorted_wrt (<) x \<Longrightarrow> CubicSpline x (Array ys) = Inl ValueError"
  shows
    "(N cfg < 0 \<longrightarrow> main cfg CubicSpline solve_ivp = Inl (Linspace, ValueError)) \<and>
     (N cfg = 0 \<longrightarrow> main cfg CubicSpline solve_ivp = Inl (Perturbations, IndexError)) \<and>
     (1 \<le> N cfg \<and> (N cfg = 1 \<or> t_end cfg = t_start cfg) \<and> delta cfg \<noteq> 0 \<longrightarrow>
        main cfg CubicSpline solve_ivp = Inl (Perturbations, KeyError ''ComplexInfinity'')) \<and>
     (2 \<le> N cfg \<and> t_end cfg < t_start cfg \<and> delta cfg \<noteq> 0 \<longrightarrow>
        main cfg CubicSpline solve_ivp = Inl (Spline, ValueError)) \<and>
     (t_end cfg \<le> t_start cfg \<or> N cfg \<le> 0 \<longrightarrow>
        (\<exists>st e. main cfg CubicSpline solve_ivp = Inl (st, e) \<and> before_solve st))"
proof -
  have neg: "main cfg CubicSpline solve_ivp = Inl (Linspace, ValueError)" if "N cfg < 0"
    using that by (simp add: main_def np_linspace_def)
  have zero: "main cfg CubicSpline solve_ivp = Inl (Perturbations, IndexError)" if "N cfg = 0"
    using that by (simp add: main_def np_linspace_def compute_initial_perturbations_def)
  have span0: "main cfg CubicSpline solve_ivp = Inl (Perturbations, KeyError ''ComplexInfinity'')"
    if h: "1 \<le> N cfg" "N cfg = 1 \<or> t_end cfg = t_start cfg" "delta cfg \<noteq> 0"
  proof -
    obtain t_np where t: "np_linspace (t_start cfg) (t_end cfg) (N cfg) = Inr t_np"
        "t_np \<noteq> []" "last t_np = hd t_np"
      using np_linspace_nonempty [of "N cfg" "t_start cfg" "t_end cfg"] h(1,2) by auto
    show ?thesis
      using t h(3) by (simp add: main_def compute_initial_perturbations_def np_div_def)
  qed
  have rev: "main cfg CubicSpline solve_ivp = Inl (Spline, ValueError)"
    if h: "2 \<le> N cfg" "t_end cfg < t_start cfg" "delta cfg \<noteq> 0"
  proof -
    obtain t_np where t: "np_linspace (t_start cfg) (t_end cfg) (N cfg) = Inr t_np"
        "length t_np = nat (N cfg)" "hd t_np = t_start cfg" "last t_np = t_end cfg"
      using np_linspace_grid [OF h(1), of "t_start cfg" "t_end cfg"] by blast
    have len: "2 \<le> length t_np" using t(2) h(1) by simp
    then have ne: "t_np \<noteq> []" by auto
    have uns: "\<not> sorted_wrt (<) t_np"
      using not_increasing [OF len] t(3,4) h(2) by simp
    obtain p0 p1 p2 p3 d0 d1 where
      p: "compute_initial_perturbations t_np (delta cfg) = Inr (Arrays p0 p1 p2 p3 d0 d1)"
        "length p0 = length t_np" "length p1 = length t_np" "length p2 = length t_np"
        "length p3 = length t_np"
      using compute_initial_perturbations_ok [OF ne, of "delta cfg"] t(3,4) h(2,3) by auto
    obtain f0 f1 f2 S where
      s: "compute_initial_schwarzian cfg t_np p0 p1 p2 p3 = Inr (f0, f1, f2, S)"
      using p by (simp add: compute_initial_schwarzian_def Let_def)
    show ?thesis
      by (simp add: main_def t(1) p(1) s assms [OF uns])
  qed
  have any: "\<exists>st e. main cfg CubicSpline solve_ivp = Inl (st, e) \<and> before_solve st"
    if inv: "t_end cfg \<le> t_start cfg \<or> N cfg \<le> 0"
  proof -
    consider "N cfg < 0" | "N cfg = 0" | "1 \<le> N cfg" "delta cfg = 0"
      | "1 \<le> N cfg" "delta cfg \<noteq> 0" "N cfg = 1 \<or> t_end cfg = t_start cfg"
      | "2 \<le> N cfg" "delta cfg \<noteq> 0" "t_end cfg < t_start cfg"
      using inv by linarith
    then show ?thesis
    proof cases
      case 1
      then show ?thesis using neg by (simp add: before_solve_def)
    next
      case 2
      then show ?thesis using zero by (simp add: before_solve_def)
    next
      case 3
      obtain t_np where t: "np_linspace (t_start cfg) (t_end cfg) (N cfg) = Inr t_np"
          "t_np \<noteq> []"
        using np_linspace_nonempty [of "N cfg" "t_start cfg" "t_end cfg"] 3(1) by auto
      show ?thesis
        using t 3(2)
        by (auto simp: main_def compute_initial_perturbations_def before_solve_def
            split: sum.splits)
    next
      case 4
      then show ?thesis using span0 by (simp add: before_solve_def)
    next
      case 5
      then show ?thesis using rev by (simp add: before_solve_def)
    qed
  qed
  show ?thesis
    using neg zero span0 rev any by blast
qed

theorem invalid_configuration_fails_before_solve_witness:
  "main (config\<lparr>N := - 1\<rparr>)
     (\<lambda>x ys. if sorted_wrt (<) x then Inr (\<lambda>t. 0) else Inl ValueError)
     (\<lambda>rhs span ic ts. Inl ValueError) = Inl (Linspace, ValueError) \<and>
   main (config\<lparr>N := 0\<rparr>)
     (\<lambda>x ys. if sorted_wrt (<) x then Inr (\<lambda>t. 0) else Inl ValueError)
     (\<lambda>rhs span ic ts. Inl ValueError) = Inl (Perturbations, IndexError) \<and>
   main (config\<lparr>N := 1\<rparr>)
     (\<lambda>x ys. if sorted_wrt (<) x then Inr (\<lambda>t. 0) else Inl ValueError)
     (\<lambda>rhs span ic ts. Inl ValueError) = Inl (Perturbations, KeyError ''ComplexInfinity'') \<and>
   main (config\<lparr>t_start := 1, t_end := 0, N := 5\<rparr>)
     (\<lambda>x ys. if sorted_wrt (<) x then Inr (\<lambda>t. 0) else Inl ValueError)
     (\<lambda>rhs span ic ts. Inl ValueError) = Inl (Spline, ValueError) \<and>
   (\<exists>st e. main (config\<lparr>t_end := 0, delta := 0\<rparr>)
     (\<lambda>x ys. if sorted_wrt (<) x then Inr (\<lambda>t. 0) else Inl ValueError)
     (\<lambda>rhs span ic ts. Inl ValueError) = Inl (st, e) \<and> before_solve st)"
proof -
  let ?spl = "\<lambda>(x :: real list) (ys :: ndarray).
      if sorted_wrt (<) x then Inr (\<lambda>t :: real. 0 :: real) else Inl ValueError"
  have c: "\<And>x ys. \<not> sorted_wrt (<) x \<Longrightarrow> ?spl x (Array ys) = Inl ValueError"
    by simp
  show ?thesis
    using
      invalid_configuration_fails_before_solve [of ?spl "config\<lparr>N := - 1\<rparr>", OF c]
      invalid_configuration_fails_before_solve [of ?spl "config\<lparr>N := 0\<rparr>", OF c]
      invalid_configuration_fails_before_solve [of ?spl "config\<lparr>N := 1\<rparr>", OF c]
      invalid_configuration_fails_before_solve
        [of ?spl "config\<lparr>t_start := 1, t_end := 0, N := 5\<rparr>", OF c]
      invalid_configuration_fails_before_solve
        [of ?spl "config\<lparr>t_end := 0, delta := 0\<rparr>", OF c]
    by (simp add: config_def)
qed

subsection \<open>Decoupling at \<open>C = 0\<close>\<close>

text \<open>
  Claim C7. With \<open>C = 0\<close> the right-hand side gives \<open>\<phi>'' = 0\<close> for every state and time,
  and its \<open>f'''\<close> is the same whatever \<open>\<phi>\<close> and \<open>\<phi>'\<close> are. Consequently, on every exact
  trajectory of the equations over \<open>[a, b]\<close>, the dilaton is linear:
  \<open>\<phi> s = \<phi> a + \<phi>' a (s - a)\<close>.
\<close>

theorem decoupled_at_zero_coupling:
  assumes "C cfg = 0"
  shows "snd (snd (snd (snd (equations_of_motion cfg S0_spline t (f, fp, fpp, p, pp))))) = 0 \<and>
     fst (snd (snd (equations_of_motion cfg S0_spline t (f, fp, fpp, p, pp))))
       = fst (snd (snd (equations_of_motion cfg S0_spline t (f, fp, fpp, p', pp')))) \<and>
     (solves_eom cfg S0_spline a b F F1 F2 P P1 \<and> a \<le> s \<and> s \<le> b
        \<longrightarrow> P s = P a + P1 a * (s - a))"
  using assms free_dilaton_linear [of cfg S0_spline a b F F1 F2 P P1 s]
  by (simp add: equations_of_motion_def Let_def)

theorem decoupled_at_zero_coupling_witness:
  "C (config\<lparr>C := 0\<rparr>) = 0 \<and>
   solves_eom (config\<lparr>C := 0\<rparr>) (\<lambda>t. 0) 0 3
     (\<lambda>t. t) (\<lambda>t. 1) (\<lambda>t. 0) (\<lambda>t. 2 + 3 * t) (\<lambda>t. 3) \<and>
   (0::real) \<le> 2 \<and> (2::real) \<le> 3 \<and>
   snd (snd (snd (snd
     (equations_of_motion (config\<lparr>C := 0\<rparr>) (\<lambda>t. 0) 2 (2, 1, 0, 8, 3))))) = 0 \<and>
   (2 + 3 * 2 :: real) = (2 + 3 * 0) + 3 * (2 - 0)"
proof -
  have e: "solves_eom (config\<lparr>C := 0\<rparr>) (\<lambda>t. 0) 0 3
      (\<lambda>t. t) (\<lambda>t. 1) (\<lambda>t. 0) (\<lambda>t. 2 + 3 * t) (\<lambda>t. 3)"
    unfolding solves_eom_def
    by (auto simp: equations_of_motion_def S_time_dependent_def f_prime_safe_def np_div_def
        config_def Let_def intro!: derivative_eq_intros)
  show ?thesis
    using e decoupled_at_zero_coupling [of "config\<lparr>C := 0\<rparr>" "\<lambda>t. 0" 2 2 1 0 8 3 8 3 0 3
        "\<lambda>t. t" "\<lambda>t. 1" "\<lambda>t. 0" "\<lambda>t. 2 + 3 * t" "\<lambda>t. 3" 2]
    by simp
qed

subsection \<open>The reconstructed Schwarzian and the source term\<close>

text \<open>Rounding at a known binary exponent, and the doubles the example below meets.\<close>

lemma to_double_at:
  assumes "2 powr of_int k \<le> \<bar>x\<bar>" "\<bar>x\<bar> < 2 powr of_int (k + 1)"
  shows "to_double x
           = of_int (round_half_even (x / 2 powr of_int (k - 52))) * 2 powr of_int (k - 52)"
proof -
  have p: "0 < \<bar>x\<bar>"
    using assms(1) by (smt (verit) powr_gt_zero)
  have "\<lfloor>log 2 \<bar>x\<bar>\<rfloor> = k"
    using assms p by (simp add: floor_log_eq_powr_iff)
  moreover have "x \<noteq> 0" using p by simp
  ultimately show ?thesis by (simp add: to_double_def Let_def)
qed

lemma to_double_0: "to_double 0 = 0"
  by (simp add: to_double_def)

lemma to_double_5: "to_double 5 = 5"
  using to_double_at [of 2 5] by (simp add: round_half_even_def powr_minus Let_def)

lemma to_double_2_30: "to_double 1073741824 = 1073741824"
  using to_double_at [of 30 1073741824] by (simp add: round_half_even_def powr_minus Let_def)

lemma to_double_2_60: "to_double 1152921504606846976 = 1152921504606846976"
  using to_double_at [of 60 1152921504606846976]
  by (simp add: round_half_even_def powr_minus Let_def)

lemma to_double_3_2_59: "to_double 1729382256910270464 = 1729382256910270464"
  using to_double_at [of 60 1729382256910270464]
  by (simp add: round_half_even_def powr_minus Let_def)

text \<open>The sum \<open>5 + 1.5 * 2\<^sup>6\<^sup>0\<close> is no double: it rounds to \<open>1.5 * 2\<^sup>6\<^sup>0\<close>.\<close>

lemma to_double_absorbs: "to_double 1729382256910270469 = 1729382256910270464"
  using to_double_at [of 60 1729382256910270469]
  by (simp add: round_half_even_def powr_minus Let_def)

text \<open>
  Claim C10 says that at every grid point the reconstructed Schwarzian is exactly
  \<open>S0 T + C \<phi>'/f'_safe\<close>, because the terms \<open>1.5 (f''/f'_safe)\<^sup>2\<close> cancel. In
  doubles they do not cancel exactly. With the default \<open>\<epsilon>\<close> and \<open>C\<close>, the source
  \<open>S0 T = 5 * 1\<close>, \<open>f' = 1\<close>, \<open>f'' = 2\<^sup>3\<^sup>0\<close> and \<open>\<phi>' = 0\<close>, line 150 adds
  \<open>1.5 * 2\<^sup>6\<^sup>0\<close> to \<open>5\<close>, the sum rounds to \<open>1.5 * 2\<^sup>6\<^sup>0\<close>, and line 151 returns
  \<open>0\<close>, where the claimed value is \<open>5\<close>.
\<close>

theorem source_term_is_absorbed:
  "S_evolved_double (epsilon config) (C config) 5 1 1 (2 ^ 30) 0 = Some 0 \<and>
   (5 * 1 + C config * 0 / f_prime_evolved_safe (epsilon config) 1 :: real) = 5"
  by (simp add: S_evolved_double_def f_prime_evolved_safe_def config_def Let_def to_double_0
      to_double_5 to_double_2_30 to_double_2_60 to_double_3_2_59 to_double_absorbs)

text \<open>
  Claim C10, amended. In exact real arithmetic the evolved Schwarzian that
  \<open>process_and_plot_solution\<close> computes is, at every grid point, the effective source
  plus \<open>C \<phi>'/f'_safe\<close>: the terms \<open>1.5 (f''/f'_safe)\<^sup>2\<close> cancel algebraically, and
  where the divisor is zero neither side is a finite number. So the plotted quantity is
  the source term and not an independent measurement; in doubles it equals it up to
  rounding only.
\<close>

theorem reconstructed_schwarzian_is_source:
  assumes "process_and_plot_solution cfg t_np sol S0_spline
             = Inr (phi_from_f, S_evolved, temperature)"
    and "i < length t_np"
  shows "S_evolved ! i =
     (case np_div (C cfg * (y sol ! 4 ! i))
             (f_prime_evolved_safe (epsilon cfg) (y sol ! 1 ! i)) of
        None \<Rightarrow> None
      | Some q \<Rightarrow>
          Some (S0_spline (t_np ! i)
                  * temperature_perturbation (t_np ! i) (delta_T cfg) (omega_T cfg) + q))"
proof -
  have S: "S_evolved =
      map (\<lambda>i. S_evolved_sample cfg S0_spline (t_np ! i) (y sol ! 1 ! i) (y sol ! 2 ! i)
                 (y sol ! 4 ! i)) [0 ..< length t_np]"
    using assms(1) by (simp add: process_and_plot_solution_def Let_def split: if_splits)
  have "S_evolved ! i =
      S_evolved_sample cfg S0_spline (t_np ! i) (y sol ! 1 ! i) (y sol ! 2 ! i) (y sol ! 4 ! i)"
    using assms(2) by (simp add: S)
  then show ?thesis
    by (simp add: S_evolved_sample_eq S_time_dependent_def Let_def split: option.splits)
qed

theorem reconstructed_schwarzian_is_source_witness:
  "process_and_plot_solution config [0, 3]
      \<lparr>success = True, message = ''ok'', y = [[0, 4], [1, 2], [0, 1], [1, 0], [0, 3]]\<rparr>
      (\<lambda>t. 5)
     = Inr ([0, 1], [Some 5, Some (5 * (1 + sin (3 / 2) / 100) + 3 / 2)],
            [1, 1 + sin (3 / 2) / 100])
   \<and> (1::nat) < length [0, 3 :: real]
   \<and> [Some 5, Some (5 * (1 + sin (3 / 2) / 100) + 3 / 2)] ! 1
       = Some (5 * (1 + sin (3 / 2) / 100) + 3 / 2)"
  using reconstructed_schwarzian_is_source [of config "[0, 3]"
      "\<lparr>success = True, message = ''ok'', y = [[0, 4], [1, 2], [0, 1], [1, 0], [0, 3]]\<rparr>"
      "\<lambda>t. 5" "[0, 1]" "[Some 5, Some (5 * (1 + sin (3 / 2) / 100) + 3 / 2)]"
      "[1, 1 + sin (3 / 2) / 100]" 1]
  by (simp add: process_and_plot_solution_def Let_def S_evolved_sample_eq S_time_dependent_def
      temperature_perturbation_def f_prime_evolved_safe_def np_div_def config_def numeral_2_eq_2
      split: option.splits)

end
